theory Spec2Isabelle
  imports Main "HOL-Library.AList"
begin

unbundle bit_operations_syntax

section \<open>The AD LDAP connector (Apps/phadldap/adldap_connector.py)\<close>

text \<open>
  The connector is a class whose methods mutate \<open>self\<close> (the shared connection, the list
  of action results) and call the directory library. The model passes the connector as
  an explicit state, returns Python exceptions as values (\<open>Inl\<close>), and takes every
  answer of the directory library from a \<open>world\<close> record. Each call made to the library
  is appended to the field \<open>ops\<close> of the state, so that "which operations were issued"
  can be read off the final state.
\<close>

subsection \<open>Data\<close>

text \<open>Exceptions: those of the directory library and the Python run-time errors the code can hit.\<close>

datatype fault =
    LDAPSocketOpenError
  | LDAPException string
  | NameError
  | IndexError
  | KeyError
  | TypeError
  | AttributeError

text \<open>
  The attributes of a search hit that the code reads. \<open>None\<close> is a missing key (the
  subscript raises); for \<open>userAccountControl\<close> the field holds what \<open>int(...)\<close> returns.
\<close>

record attrs =
  sAMAccountName :: "string option"
  distinguishedName :: "string option"
  userAccountControl :: "int option"

text \<open>An item of \<open>connection.response\<close>: its \<open>'type'\<close> and \<open>'attributes'\<close> keys.\<close>

record response_item =
  rtype :: "string option"
  rattributes :: "attrs option"

text \<open>An element of \<open>json.loads(response_to_json())['entries']\<close>.\<close>

record json_entry =
  jattributes :: attrs

datatype mod_op = MODIFY_ADD | MODIFY_DELETE | MODIFY_REPLACE

datatype aval = VStr string | VInt int

type_synonym changes = "(string \<times> (mod_op \<times> aval list) list) list"

text \<open>The calls to the directory library, as logged in \<open>ops\<close>.\<close>

datatype dir_op =
    OpUnbind
  | OpBind
  | OpSearch "string option" string "string list"
  | OpModify string changes
  | OpModifyDN string string string
  | OpAddMembers "string list" "string list"
  | OpRemoveMembers "string list" "string list"
  | OpUnlock string
  | OpModifyPassword string string

datatype bind_outcome =
    BindOk
  | BindRefused
  | BindRaised fault
  | ServerRaised fault

text \<open>
  The directory and the library, as seen by one invocation. \<open>bind_outcome n\<close> is what the
  \<open>n\<close>-th attempt to connect and bind does; \<open>default_naming_context\<close> is \<open>None\<close> when
  reading \<open>server.info.other['defaultNamingContext'][0]\<close> raises; a search answers with the
  raw response and with the entries of its JSON rendering; \<open>parse_dn\<close> is
  \<open>ldap3.utils.dn.parse_dn\<close>, a list of (attribute, value, separator) triples.
\<close>

record world =
  bind_outcome :: "nat \<Rightarrow> bind_outcome"
  default_naming_context :: "string option"
  search :: "string option \<Rightarrow> string \<Rightarrow> string list \<Rightarrow> fault + (response_item list \<times> json_entry list)"
  modify :: "string \<Rightarrow> changes \<Rightarrow> fault + bool"
  modify_dn :: "string \<Rightarrow> string \<Rightarrow> string \<Rightarrow> fault + bool"
  ad_add_members_to_groups :: "string list \<Rightarrow> string list \<Rightarrow> fault + bool"
  ad_remove_members_from_groups :: "string list \<Rightarrow> string list \<Rightarrow> fault + bool"
  ad_unlock_account :: "string \<Rightarrow> fault + bool"
  modify_password :: "string \<Rightarrow> string \<Rightarrow> fault + bool"
  parse_dn :: "string \<Rightarrow> fault + (string \<times> string \<times> string) list"

text \<open>
  The parameters of an action. The keys the handlers subscript (\<open>param['user']\<close>) are
  fields; the keys read with \<open>param.get\<close> are optional.
\<close>

record param =
  members :: string
  groups :: string
  use_samaccountname :: "bool option"
  user :: string
  obj :: string
  new_ou :: string
  principals :: string
  attributes :: string
  attribute :: string
  val :: string
  action :: string
  password :: string
  filter_p :: string
  search_base :: "string option"

text \<open>The dictionary \<open>_query\<close> reads: \<open>attributes\<close>, \<open>filter\<close> and the optional \<open>search_base\<close>.\<close>

record query_param =
  q_attributes :: string
  q_filter :: string
  q_search_base :: "string option"

datatype msg = MsgStr string | MsgDescription | MsgResult

datatype sval = SInt int | SStr string

datatype data_rec =
    GroupData string string string
  | ModifiedData bool
  | ResetData bool
  | QueryData "json_entry list"

text \<open>An ActionResult: \<open>status = None\<close> until \<open>set_status\<close> is called on it.\<close>

record action_result =
  status :: "bool option"
  message :: "msg option"
  exception_ar :: "fault option"
  data :: "data_rec list"
  summary :: "(string \<times> sval) list"

record connection =
  bound :: bool
  closed :: bool
  response :: "response_item list option"

record connector =
  ldap_connection :: "connection option"
  action_results :: "action_result list"
  bind_count :: nat
  ops :: "dir_op list"

text \<open>What a handler hands back: \<open>RetVal(x)\<close>, a bare status, or nothing.\<close>

datatype ret = RetVal bool | Status bool | RetNone

abbreviation (input) APP_SUCCESS :: bool where "APP_SUCCESS \<equiv> True"
abbreviation (input) APP_ERROR :: bool where "APP_ERROR \<equiv> False"

subsection \<open>Strings\<close>

text \<open>
  \<open>s.split(c)\<close> and \<open>s.strip()\<close>. A \<open>char\<close> stands for a code point below 256;
  \<open>isspace\<close> lists the code points in that range that Python counts as white space
  (tab to carriage return, the four separators \<open>0x1C\<close> to \<open>0x1F\<close>, the space,
  \<open>U+0085\<close> and \<open>U+00A0\<close>).
\<close>

fun split :: "char \<Rightarrow> string \<Rightarrow> string list" where
  "split c [] = [[]]"
| "split c (x # xs) =
     (if x = c then [] # split c xs
      else (case split c xs of [] \<Rightarrow> [[x]] | w # ws \<Rightarrow> (x # w) # ws))"

definition isspace :: "char \<Rightarrow> bool" where
  "isspace c = (c \<in> set [CHR '' '', CHR 0x09, CHR 0x0A, CHR 0x0B, CHR 0x0C, CHR 0x0D,
                          CHR 0x1C, CHR 0x1D, CHR 0x1E, CHR 0x1F, CHR 0x85, CHR 0xA0])"

definition strip :: "string \<Rightarrow> string" where
  "strip s = rev (dropWhile isspace (rev (dropWhile isspace s)))"

definition split_strip :: "string \<Rightarrow> string list" where
  "split_strip s = map strip (split (CHR '';'') s)"

subsection \<open>Action results\<close>

definition new_action_result :: action_result where
  "new_action_result =
     \<lparr>status = None, message = None, exception_ar = None, data = [], summary = []\<rparr>"

definition add_action_result :: "connector \<Rightarrow> nat \<times> connector" where
  "add_action_result s =
     (length (action_results s),
      s\<lparr>action_results := action_results s @ [new_action_result]\<rparr>)"

definition upd_result :: "nat \<Rightarrow> (action_result \<Rightarrow> action_result) \<Rightarrow> connector \<Rightarrow> connector" where
  "upd_result ar f s =
     s\<lparr>action_results := (action_results s)[ar := f (action_results s ! ar)]\<rparr>"

definition set_status ::
  "nat \<Rightarrow> bool \<Rightarrow> msg option \<Rightarrow> fault option \<Rightarrow> connector \<Rightarrow> bool \<times> connector" where
  "set_status ar st m e s =
     (st, upd_result ar (\<lambda>r. r\<lparr>status := Some st, message := m, exception_ar := e\<rparr>) s)"

text \<open>A status that was never set reads as \<open>APP_ERROR\<close>, the initial value of the platform.\<close>

definition get_status :: "nat \<Rightarrow> connector \<Rightarrow> bool" where
  "get_status ar s = (case status (action_results s ! ar) of None \<Rightarrow> APP_ERROR | Some b \<Rightarrow> b)"

definition add_data :: "nat \<Rightarrow> data_rec \<Rightarrow> connector \<Rightarrow> connector" where
  "add_data ar d s = upd_result ar (\<lambda>r. r\<lparr>data := data r @ [d]\<rparr>) s"

definition update_summary :: "nat \<Rightarrow> (string \<times> sval) list \<Rightarrow> connector \<Rightarrow> connector" where
  "update_summary ar kvs s =
     upd_result ar (\<lambda>r. r\<lparr>summary := fold (\<lambda>(k, v). AList.update k v) kvs (summary r)\<rparr>) s"

definition log_op :: "dir_op \<Rightarrow> connector \<Rightarrow> connector" where
  "log_op op s = s\<lparr>ops := ops s @ [op]\<rparr>"

subsection \<open>Connection manager\<close>

definition live :: "connector \<Rightarrow> bool" where
  "live s = (case ldap_connection s of None \<Rightarrow> False | Some c \<Rightarrow> bound c \<and> \<not> closed c)"

definition fresh_connection :: "bool \<Rightarrow> connection" where
  "fresh_connection b = \<lparr>bound = b, closed = False, response = None\<rparr>"

text \<open>
  \<open>_ldap_bind\<close>: nothing to do on a live connection; a stale one is released; then one
  attempt to connect and bind, whose refusal or exception becomes \<open>APP_ERROR\<close>. The
  status goes to the action result when one is passed.
\<close>

definition ldap_bind :: "world \<Rightarrow> nat option \<Rightarrow> connector \<Rightarrow> bool \<times> connector" where
  "ldap_bind w ar s =
     (if live s then (True, s)
      else
        let s1 = (case ldap_connection s of
                    None \<Rightarrow> s
                  | Some c \<Rightarrow> log_op OpUnbind
                      (s\<lparr>ldap_connection := Some (c\<lparr>bound := False, closed := True\<rparr>)\<rparr>));
            n = bind_count s1;
            s2 = s1\<lparr>bind_count := Suc n\<rparr>
        in case bind_outcome w n of
             ServerRaised e \<Rightarrow>
               (case ar of None \<Rightarrow> (APP_ERROR, s2)
                | Some a \<Rightarrow> set_status a APP_ERROR (Some (MsgStr [])) (Some e) s2)
           | BindRaised e \<Rightarrow>
               (let s3 = log_op OpBind (s2\<lparr>ldap_connection := Some (fresh_connection False)\<rparr>)
                in case ar of None \<Rightarrow> (APP_ERROR, s3)
                   | Some a \<Rightarrow> set_status a APP_ERROR (Some (MsgStr [])) (Some e) s3)
           | BindRefused \<Rightarrow>
               (let s3 = log_op OpBind (s2\<lparr>ldap_connection := Some (fresh_connection False)\<rparr>)
                in case ar of None \<Rightarrow> (APP_ERROR, s3)
                   | Some a \<Rightarrow> set_status a APP_ERROR (Some MsgDescription) None s3)
           | BindOk \<Rightarrow>
               (let s3 = log_op OpBind (s2\<lparr>ldap_connection := Some (fresh_connection True)\<rparr>)
                in case ar of None \<Rightarrow> (APP_SUCCESS, s3)
                   | Some a \<Rightarrow> set_status a APP_SUCCESS None None s3))"

text \<open>\<open>_get_root_dn\<close>: the root naming context, or \<open>False\<close> (here \<open>None\<close>).\<close>

definition get_root_dn :: "world \<Rightarrow> connector \<Rightarrow> string option \<times> connector" where
  "get_root_dn w s =
     (case ldap_bind w None s of
        (True, s') \<Rightarrow> (default_naming_context w, s')
      | (False, s') \<Rightarrow> (None, s'))"

text \<open>
  \<open>Connection.modify\<close> of the directory library checks its arguments before it sends
  anything: on an empty change set it raises \<open>LDAPChangeError\<close> with the message
  \<open>no changes in modify request\<close>. Every other change set gets the answer of the directory.
\<close>

definition connection_modify :: "world \<Rightarrow> string \<Rightarrow> changes \<Rightarrow> fault + bool" where
  "connection_modify w dn chg =
     (if chg = [] then Inl (LDAPException ''no changes in modify request'')
      else modify w dn chg)"

subsection \<open>Query engine\<close>

text \<open>
  \<open>_query\<close>: the default of \<open>param.get\<close> is evaluated whether or not \<open>search_base\<close> is
  given; without a connection the \<open>raise\<close> reads \<open>self._ldap_bind.result\<close>, which a
  method does not have. The value returned stands for the JSON text, already decoded.
\<close>

definition query :: "world \<Rightarrow> query_param \<Rightarrow> connector \<Rightarrow> (fault + json_entry list) \<times> connector" where
  "query w qp s =
     (let attrs = split_strip (q_attributes qp);
          flt = q_filter qp;
          (root, s1) = get_root_dn w s;
          base = (case q_search_base qp of Some b \<Rightarrow> Some b | None \<Rightarrow> root);
          (okb, s2) = ldap_bind w None s1
      in if \<not> okb then (Inl AttributeError, s2)
         else
           let s3 = log_op (OpSearch base flt attrs) s2
           in case search w base flt attrs of
                Inl e \<Rightarrow> (Inl e, s3)
              | Inr (resp, js) \<Rightarrow>
                  (Inr js,
                   s3\<lparr>ldap_connection :=
                        map_option (\<lambda>c. c\<lparr>response := Some resp\<rparr>) (ldap_connection s3)\<rparr>))"

text \<open>
  \<open>_get_filtered_response\<close>: the comprehension reads \<open>i['type']\<close> of each item in turn;
  any exception (no connection, no response yet, an item without the key) gives \<open>[]\<close>.
\<close>

definition read_response :: "connector \<Rightarrow> fault + response_item list" where
  "read_response s =
     (case ldap_connection s of
        None \<Rightarrow> Inl AttributeError
      | Some c \<Rightarrow> (case response c of None \<Rightarrow> Inl TypeError | Some r \<Rightarrow> Inr r))"

fun not_search_res_ref :: "response_item list \<Rightarrow> fault + response_item list" where
  "not_search_res_ref [] = Inr []"
| "not_search_res_ref (i # rest) =
     (case rtype i of
        None \<Rightarrow> Inl KeyError
      | Some t \<Rightarrow>
          (case not_search_res_ref rest of
             Inl e \<Rightarrow> Inl e
           | Inr out \<Rightarrow> Inr (if t \<noteq> ''searchResRef'' then i # out else out)))"

definition get_filtered_response :: "connector \<Rightarrow> response_item list" where
  "get_filtered_response s =
     (case read_response s of
        Inl e \<Rightarrow> []
      | Inr r \<Rightarrow> (case not_search_res_ref r of Inl e \<Rightarrow> [] | Inr out \<Rightarrow> out))"

subsection \<open>Identifier resolver\<close>

text \<open>
  \<open>_sam_to_dn\<close>. The result dictionary is an association list in insertion order:
  \<open>AList.update\<close> overwrites a key in place and appends a new one, as a Python dict
  does. The value \<open>None\<close> stands for \<open>False\<close>.
\<close>

type_synonym dn_map = "(string \<times> string option) list"

definition sam_filter :: "string list \<Rightarrow> string" where
  "sam_filter sam =
     fold (\<lambda>u flt. flt @ ''(samaccountname='' @ u @ '')'') sam ''(|'' @ '')''"

definition sam_query :: "string list \<Rightarrow> query_param" where
  "sam_query sam =
     \<lparr>q_attributes = ''distinguishedname;samaccountname'',
      q_filter = sam_filter sam,
      q_search_base = None\<rparr>"

definition seed :: "string list \<Rightarrow> dn_map" where
  "seed sam = fold (\<lambda>name. AList.update name None) sam []"

fun match_entries :: "json_entry list \<Rightarrow> dn_map \<Rightarrow> fault + dn_map" where
  "match_entries [] r = Inr r"
| "match_entries (i # rest) r =
     (case sAMAccountName (jattributes i) of
        None \<Rightarrow> Inl KeyError
      | Some s \<Rightarrow>
          if s \<in> set (map fst r) then
            (case distinguishedName (jattributes i) of
               None \<Rightarrow> Inl KeyError
             | Some d \<Rightarrow> match_entries rest (AList.update s (Some d) r))
          else match_entries rest r)"

definition found_records :: "dn_map \<Rightarrow> nat" where
  "found_records r = length (filter (\<lambda>(k, v). v \<noteq> None) r)"

definition sam_to_dn ::
  "world \<Rightarrow> string list \<Rightarrow> nat option \<Rightarrow> connector \<Rightarrow> (fault + dn_map) \<times> connector" where
  "sam_to_dn w sam ar s =
     (case query w (sam_query sam) s of
        (Inl e, s1) \<Rightarrow> (Inl e, s1)
      | (Inr entries, s1) \<Rightarrow>
          (case match_entries entries (seed sam) of
             Inl e \<Rightarrow> (Inl e, s1)
           | Inr r \<Rightarrow>
               (Inr r,
                case ar of
                  None \<Rightarrow> s1
                | Some a \<Rightarrow>
                    update_summary a
                      [(''requested records'', SInt (int (length sam))),
                       (''found records'', SInt (int (found_records r)))] s1)))"

subsection \<open>Action handlers\<close>

definition ret_val :: "bool \<times> connector \<Rightarrow> (fault + ret) \<times> connector" where
  "ret_val bs = (Inr (RetVal (fst bs)), snd bs)"

text \<open>
  The loops over \<open>t_users.items()\<close> and \<open>t_group.items()\<close>: the values that are not \<open>False\<close>
  (\<open>n_members\<close>, \<open>n_groups\<close>), and the keys whose value is (\<open>member_nf\<close>, \<open>group_nf\<close>, which
  the handler collects and never reads).
\<close>

fun resolved :: "dn_map \<Rightarrow> string list" where
  "resolved [] = []"
| "resolved ((k, v) # r) = (case v of None \<Rightarrow> resolved r | Some d \<Rightarrow> d # resolved r)"

fun not_found :: "dn_map \<Rightarrow> string list" where
  "not_found [] = []"
| "not_found ((k, v) # r) = (case v of None \<Rightarrow> k # not_found r | Some d \<Rightarrow> not_found r)"

definition func_name :: "bool \<Rightarrow> string" where
  "func_name add = (if add then ''added'' else ''removed'')"

definition group_op :: "bool \<Rightarrow> string list \<Rightarrow> string list \<Rightarrow> dir_op" where
  "group_op add ms gs = (if add then OpAddMembers ms gs else OpRemoveMembers ms gs)"

text \<open>The two nested loops that add one data record per member and group.\<close>

definition add_group_data :: "nat \<Rightarrow> string \<Rightarrow> string list \<Rightarrow> string list \<Rightarrow> connector \<Rightarrow> connector" where
  "add_group_data ar func ms gs s =
     fold (\<lambda>i. fold (\<lambda>j. add_data ar (GroupData i j func)) gs) ms s"

text \<open>The second half of \<open>_handle_group_members\<close>: the extended operation and the data records.\<close>

definition modify_groups ::
  "world \<Rightarrow> nat \<Rightarrow> bool \<Rightarrow> string list \<Rightarrow> string list \<Rightarrow> connector \<Rightarrow> (fault + ret) \<times> connector" where
  "modify_groups w ar add ms gs s =
     (let func = func_name add;
          s1 = log_op (group_op add ms gs) s
      in case (if add then ad_add_members_to_groups w ms gs
               else ad_remove_members_from_groups w ms gs) of
           Inl e \<Rightarrow> ret_val (set_status ar APP_ERROR (Some (MsgStr [])) (Some e) s1)
         | Inr b \<Rightarrow>
             ret_val (set_status ar APP_SUCCESS
                        (Some (MsgStr (func @ '' member(s) to group(s).''))) None
                        (add_group_data ar func ms gs s1)))"

definition handle_group_members ::
  "world \<Rightarrow> param \<Rightarrow> bool \<Rightarrow> connector \<Rightarrow> (fault + ret) \<times> connector" where
  "handle_group_members w p add s =
     (let (ar, s0) = add_action_result s;
          (okb, s1) = ldap_bind w None s0
      in if \<not> okb then ret_val (set_status ar APP_ERROR None None s1)
         else
           let ms = split_strip (members p);
               gs = split_strip (groups p)
           in if use_samaccountname p = Some True then
                (case sam_to_dn w ms (Some ar) s1 of
                   (Inl e, s2) \<Rightarrow> (Inl e, s2)
                 | (Inr t_users, s2) \<Rightarrow>
                     (case sam_to_dn w gs (Some ar) s2 of
                        (Inl e, s3) \<Rightarrow> (Inl e, s3)
                      | (Inr t_group, s3) \<Rightarrow>
                          (let n_members = resolved t_users;
                               n_groups = resolved t_group
                           in if length n_members > 0 \<and> length n_groups > 0
                              then modify_groups w ar add n_members n_groups s3
                              else ret_val (set_status ar APP_ERROR None None s3))))
              else modify_groups w ar add ms gs s1)"

text \<open>
  \<open>_handle_unlock_account\<close>. The local variable \<open>user_dn\<close> is bound only on the
  resolution branch: \<open>None\<close> below is the unbound variable, whose use raises a NameError
  inside the \<open>try\<close>. The handler enters the \<open>try\<close> with a resolved user only; the other
  two cases of \<open>user_dn[user]\<close> are there for totality.
\<close>

definition unlock_tail ::
  "world \<Rightarrow> nat \<Rightarrow> string \<Rightarrow> dn_map option \<Rightarrow> connector \<Rightarrow> (fault + ret) \<times> connector" where
  "unlock_tail w ar usr user_dn s =
     (let (okb, s1) = ldap_bind w None s
      in if \<not> okb then ret_val (set_status ar APP_ERROR None None s1)
         else
           (case user_dn of
              None \<Rightarrow> ret_val (set_status ar APP_ERROR (Some (MsgStr [])) (Some NameError) s1)
            | Some m \<Rightarrow>
                (case map_of m usr of
                   None \<Rightarrow> ret_val (set_status ar APP_ERROR (Some (MsgStr [])) (Some KeyError) s1)
                 | Some None \<Rightarrow>
                     ret_val (set_status ar APP_ERROR (Some (MsgStr [])) (Some TypeError) s1)
                 | Some (Some d) \<Rightarrow>
                     (let s2 = log_op (OpUnlock d) s1
                      in case ad_unlock_account w d of
                           Inl e \<Rightarrow>
                             ret_val (set_status ar APP_ERROR (Some (MsgStr [])) (Some e) s2)
                         | Inr b \<Rightarrow>
                             ret_val (set_status ar APP_SUCCESS None None
                                        (update_summary ar [(''summary'', SStr ''Unlocked'')] s2))))))"

definition handle_unlock_account ::
  "world \<Rightarrow> param \<Rightarrow> connector \<Rightarrow> (fault + ret) \<times> connector" where
  "handle_unlock_account w p s =
     (let (ar, s0) = add_action_result s;
          s1 = update_summary ar [] s0;
          usr = user p
      in if use_samaccountname p = Some True then
           (case sam_to_dn w [usr] None s1 of
              (Inl e, s2) \<Rightarrow> (Inl e, s2)
            | (Inr user_dn, s2) \<Rightarrow>
                if length user_dn = 0 then ret_val (set_status ar APP_ERROR None None s2)
                else
                  (case map_of user_dn usr of
                     None \<Rightarrow> (Inl KeyError, s2)
                   | Some None \<Rightarrow> ret_val (set_status ar APP_ERROR None None s2)
                   | Some (Some d) \<Rightarrow> unlock_tail w ar usr (Some user_dn) s2))
         else unlock_tail w ar usr None s1)"

text \<open>
  \<open>_handle_query\<close>. When \<open>_query\<close> raises, Python evaluates the expression of the first
  \<open>except\<close> clause, \<open>ldap3.LDAPSocketOpenError\<close>. The release of the library that has the
  group-membership operations this connector calls does not export its exceptions from
  the top-level module, so that expression raises an AttributeError, which no clause of
  the same \<open>try\<close> catches: neither error status is ever set, and the AttributeError
  leaves the handler.
\<close>

definition handle_query ::
  "world \<Rightarrow> query_param \<Rightarrow> connector \<Rightarrow> (fault + ret) \<times> connector" where
  "handle_query w qp s =
     (let (ar, s0) = add_action_result s;
          s1 = update_summary ar [] s0
      in case query w qp s1 of
           (Inl e, s2) \<Rightarrow> (Inl AttributeError, s2)
         | (Inr js, s2) \<Rightarrow>
             (let s3 = add_data ar (QueryData js) s2;
                  s4 = update_summary ar
                         [(''Total Records Found'',
                           SInt (int (length (get_filtered_response s3))))] s3
              in ret_val (set_status ar APP_SUCCESS None None s4)))"

text \<open>
  \<open>_handle_account_status\<close>: the new flags are computed on Python integers, which have
  no width. The call of \<open>_handle_query\<close> is inside the \<open>try\<close>, so what it raises becomes
  the error status here.
\<close>

definition mod_uac :: "bool \<Rightarrow> int \<Rightarrow> int" where
  "mod_uac disable uac = (if disable then uac OR 0x02 else uac AND (0xFFFFFFFF XOR 0x02))"

definition read_uac :: "response_item list \<Rightarrow> fault + int" where
  "read_uac resp =
     (case resp of
        [] \<Rightarrow> Inl IndexError
      | i # rest \<Rightarrow>
          (case rattributes i of
             None \<Rightarrow> Inl KeyError
           | Some a \<Rightarrow>
               (case userAccountControl a of None \<Rightarrow> Inl KeyError | Some u \<Rightarrow> Inr u)))"

definition uac_query :: "string \<Rightarrow> query_param" where
  "uac_query usr =
     \<lparr>q_attributes = ''useraccountcontrol'',
      q_filter = ''(distinguishedname='' @ usr @ '')'',
      q_search_base = None\<rparr>"

definition uac_changes :: "int \<Rightarrow> changes" where
  "uac_changes m = [(''userAccountControl'', [(MODIFY_REPLACE, [VInt m])])]"

definition handle_account_status ::
  "world \<Rightarrow> param \<Rightarrow> bool \<Rightarrow> connector \<Rightarrow> (fault + ret) \<times> connector" where
  "handle_account_status w p disable s =
     (let (ar, s0) = add_action_result s;
          (okb, s1) = ldap_bind w None s0
      in if \<not> okb then ret_val (set_status ar APP_ERROR None None s1)
         else
           let usr = user p
           in case handle_query w (uac_query usr) s1 of
                (Inl e, s2) \<Rightarrow> ret_val (set_status ar APP_ERROR (Some (MsgStr [])) (Some e) s2)
              | (Inr r, s2) \<Rightarrow>
                  (case read_uac (get_filtered_response s2) of
                     Inl e \<Rightarrow> ret_val (set_status ar APP_ERROR (Some (MsgStr [])) (Some e) s2)
                   | Inr uac \<Rightarrow>
                       (let chg = uac_changes (mod_uac disable uac);
                            s3 = log_op (OpModify usr chg) s2
                        in case connection_modify w usr chg of
                             Inl e \<Rightarrow>
                               ret_val (set_status ar APP_ERROR (Some (MsgStr [])) (Some e) s3)
                           | Inr res \<Rightarrow>
                               if \<not> res
                               then ret_val (set_status ar APP_ERROR (Some MsgResult) None s3)
                               else ret_val (set_status ar APP_SUCCESS None None s3))))"

text \<open>
  \<open>_handle_move_object\<close>: \<open>'='.join(parse_dn(obj)[0][:-1])\<close> joins the attribute and the
  value of the first component. After a rename that reports success the function ends
  without a \<open>return\<close>.
\<close>

definition first_rdn :: "world \<Rightarrow> string \<Rightarrow> fault + string" where
  "first_rdn w dn =
     (case parse_dn w dn of
        Inl e \<Rightarrow> Inl e
      | Inr [] \<Rightarrow> Inl IndexError
      | Inr ((a, v, sep) # rest) \<Rightarrow> Inr (a @ ''='' @ v))"

definition handle_move_object ::
  "world \<Rightarrow> param \<Rightarrow> connector \<Rightarrow> (fault + ret) \<times> connector" where
  "handle_move_object w p s =
     (let (ar, s0) = add_action_result s;
          ob = obj p;
          ou = new_ou p;
          (okb, s1) = ldap_bind w None s0
      in if \<not> okb then ret_val (set_status ar APP_ERROR None None s1)
         else
           (case first_rdn w ob of
              Inl e \<Rightarrow> ret_val (set_status ar APP_ERROR (Some (MsgStr [])) (Some e) s1)
            | Inr cn \<Rightarrow>
                (let s2 = log_op (OpModifyDN ob cn ou) s1
                 in case modify_dn w ob cn ou of
                      Inl e \<Rightarrow> ret_val (set_status ar APP_ERROR (Some (MsgStr [])) (Some e) s2)
                    | Inr res \<Rightarrow>
                        if \<not> res
                        then ret_val (set_status ar APP_ERROR (Some MsgResult) None s2)
                        else (Inr RetNone, s2))))"

definition handle_test_connectivity ::
  "world \<Rightarrow> param \<Rightarrow> connector \<Rightarrow> (fault + ret) \<times> connector" where
  "handle_test_connectivity w p s =
     (let (ar, s0) = add_action_result s;
          (okb, s1) = ldap_bind w (Some ar) s0
      in if \<not> okb then (Inr (Status (get_status ar s1)), s1)
         else
           let (b, s2) = set_status ar (get_status ar s1) None None s1
           in (Inr (Status b), s2))"

text \<open>\<open>_handle_get_attributes\<close>: the call of \<open>_query\<close> is not inside a \<open>try\<close>.\<close>

definition principal_filter :: "string list \<Rightarrow> string" where
  "principal_filter names =
     fold (\<lambda>i q. q @ ''(userprincipalname='' @ i @ '')(samaccountname='' @ i
                    @ '')(distinguishedname='' @ i @ '')'') names ''(|'' @ '')''"

definition handle_get_attributes ::
  "world \<Rightarrow> param \<Rightarrow> connector \<Rightarrow> (fault + ret) \<times> connector" where
  "handle_get_attributes w p s =
     (let (ar, s0) = add_action_result s;
          s1 = update_summary ar [] s0;
          (okb, s2) = ldap_bind w None s1
      in if \<not> okb then (Inr (Status APP_ERROR), s2)
         else
           let names = split_strip (principals p);
               qp = \<lparr>q_attributes = attributes p,
                     q_filter = principal_filter names,
                     q_search_base = None\<rparr>
           in case query w qp s2 of
                (Inl e, s3) \<Rightarrow> (Inl e, s3)
              | (Inr js, s3) \<Rightarrow>
                  (let s4 = add_data ar (QueryData js) s3;
                       s5 = update_summary ar
                              [(''total_objects'',
                                SInt (int (length (get_filtered_response s4))))] s4
                   in ret_val (set_status ar APP_SUCCESS None None s5)))"

text \<open>
  \<open>_handle_set_attribute\<close>: an action other than \<open>ADD\<close>, \<open>DELETE\<close> and \<open>REPLACE\<close> leaves
  the change set empty, and nothing checks it. The \<open>except\<close> block sets the error status
  and does not return, so the line after it reads \<open>ret\<close>, which is unbound when \<open>modify\<close>
  raised.
\<close>

definition set_attribute_changes :: "string \<Rightarrow> string \<Rightarrow> string \<Rightarrow> changes" where
  "set_attribute_changes act attr v =
     (if act = ''ADD'' then [(attr, [(MODIFY_ADD, [VStr v])])]
      else if act = ''DELETE'' then [(attr, [(MODIFY_DELETE, [VStr v])])]
      else if act = ''REPLACE'' then [(attr, [(MODIFY_REPLACE, [VStr v])])]
      else [])"

definition handle_set_attribute ::
  "world \<Rightarrow> param \<Rightarrow> connector \<Rightarrow> (fault + ret) \<times> connector" where
  "handle_set_attribute w p s =
     (let (ar, s0) = add_action_result s;
          usr = user p;
          chg = set_attribute_changes (action p) (attribute p) (val p);
          (okb, s1) = ldap_bind w None s0
      in if \<not> okb then (Inr (Status APP_ERROR), s1)
         else
           let s2 = log_op (OpModify usr chg) s1
           in case connection_modify w usr chg of
                Inl e \<Rightarrow>
                  (let (b, s3) = set_status ar APP_ERROR (Some (MsgStr [])) (Some e) s2
                   in (Inl NameError, s3))
              | Inr r \<Rightarrow>
                  ret_val (set_status ar APP_SUCCESS None None
                             (add_data ar (ModifiedData r) s2)))"

text \<open>
  \<open>_handle_reset_password\<close>: without a connection the handler raises (the expression
  \<open>self._ldap_bind.result\<close> fails first); in the \<open>except\<close> block \<open>RetVal\<close> is called with
  three arguments, one more than its constructor takes, after the status has been set.
\<close>

definition handle_reset_password ::
  "world \<Rightarrow> param \<Rightarrow> connector \<Rightarrow> (fault + ret) \<times> connector" where
  "handle_reset_password w p s =
     (let (ar, s0) = add_action_result s;
          usr = user p;
          pwd = password p;
          (okb, s1) = ldap_bind w None s0
      in if \<not> okb then (Inl AttributeError, s1)
         else
           let s2 = log_op (OpModifyPassword usr pwd) s1
           in case modify_password w usr pwd of
                Inl e \<Rightarrow>
                  (let (b, s3) = set_status ar APP_ERROR None None s2
                   in (Inl TypeError, s3))
              | Inr r \<Rightarrow>
                  if r
                  then ret_val (set_status ar APP_SUCCESS None None
                                  (add_data ar (ResetData True) s2))
                  else ret_val (set_status ar APP_ERROR None None
                                  (add_data ar (ResetData False) s2)))"

text \<open>\<open>handle_action\<close>: the dispatch on the action identifier given by the host.\<close>

definition query_of_param :: "param \<Rightarrow> query_param" where
  "query_of_param p =
     \<lparr>q_attributes = attributes p, q_filter = filter_p p, q_search_base = search_base p\<rparr>"

definition handle_action ::
  "world \<Rightarrow> string \<Rightarrow> param \<Rightarrow> connector \<Rightarrow> (fault + ret) \<times> connector" where
  "handle_action w action_id p s =
     (if action_id = ''test_connectivity'' then handle_test_connectivity w p s
      else if action_id = ''query'' then handle_query w (query_of_param p) s
      else if action_id = ''add_group_members'' then handle_group_members w p True s
      else if action_id = ''remove_group_members'' then handle_group_members w p False s
      else if action_id = ''unlock_account'' then handle_unlock_account w p s
      else if action_id = ''disable_account'' then handle_account_status w p True s
      else if action_id = ''enable_account'' then handle_account_status w p False s
      else if action_id = ''move_object'' then handle_move_object w p s
      else if action_id = ''get_attributes'' then handle_get_attributes w p s
      else if action_id = ''set_attribute'' then handle_set_attribute w p s
      else if action_id = ''reset_password'' then handle_reset_password w p s
      else (Inr (Status APP_SUCCESS), s))"

text \<open>\<open>initialize\<close>: no connection yet, no action result.\<close>

definition initialize :: connector where
  "initialize = \<lparr>ldap_connection = None, action_results = [], bind_count = 0, ops = []\<rparr>"

subsection \<open>An example directory\<close>

text \<open>
  A directory that accepts every bind and every change that reaches it, knows the
  accounts \<open>alice\<close> and \<open>g1\<close> (not \<open>bob\<close>), and answers the search for Alice's entry with a
  referral and her entry, whose flags are 512.
\<close>

definition alice_dn :: string where
  "alice_dn = ''CN=Alice,OU=Old,DC=x''"

definition hit :: "string \<Rightarrow> string \<Rightarrow> attrs" where
  "hit sam dn =
     \<lparr>sAMAccountName = Some sam, distinguishedName = Some dn, userAccountControl = Some 512\<rparr>"

definition entry_item :: "attrs \<Rightarrow> response_item" where
  "entry_item a = \<lparr>rtype = Some ''searchResEntry'', rattributes = Some a\<rparr>"

definition referral_item :: response_item where
  "referral_item = \<lparr>rtype = Some ''searchResRef'', rattributes = None\<rparr>"

definition example_search ::
  "string option \<Rightarrow> string \<Rightarrow> string list \<Rightarrow> fault + (response_item list \<times> json_entry list)" where
  "example_search base flt attrs =
     (if flt = ''(|(samaccountname=alice)(samaccountname=bob))''
         \<or> flt = ''(|(samaccountname=alice))''
         \<or> flt = ''(distinguishedname=CN=Alice,OU=Old,DC=x)''
      then Inr ([referral_item, entry_item (hit ''alice'' alice_dn)],
                [\<lparr>jattributes = hit ''alice'' alice_dn\<rparr>])
      else if flt = ''(|(samaccountname=g1))''
      then Inr ([entry_item (hit ''g1'' ''CN=G1,DC=x'')],
                [\<lparr>jattributes = hit ''g1'' ''CN=G1,DC=x''\<rparr>])
      else Inr ([], []))"

definition example_parse_dn :: "string \<Rightarrow> fault + (string \<times> string \<times> string) list" where
  "example_parse_dn dn =
     (if dn = alice_dn
      then Inr [(''CN'', ''Alice'', '',''), (''OU'', ''Old'', '',''), (''DC'', ''x'', [])]
      else Inl (LDAPException ''invalid dn''))"

definition example_world :: world where
  "example_world =
     \<lparr>bind_outcome = (\<lambda>n. BindOk),
      default_naming_context = Some ''DC=x'',
      search = example_search,
      modify = (\<lambda>dn chg. Inr True),
      modify_dn = (\<lambda>dn rdn sup. Inr True),
      ad_add_members_to_groups = (\<lambda>ms gs. Inr True),
      ad_remove_members_from_groups = (\<lambda>ms gs. Inr True),
      ad_unlock_account = (\<lambda>dn. Inr True),
      modify_password = (\<lambda>dn pwd. Inr True),
      parse_dn = example_parse_dn\<rparr>"

text \<open>The same directory when it cannot be reached, and when it rejects every change by an exception.\<close>

definition unreachable_world :: world where
  "unreachable_world = example_world\<lparr>bind_outcome := (\<lambda>n. BindRaised LDAPSocketOpenError)\<rparr>"

definition rejecting_world :: world where
  "rejecting_world =
     example_world\<lparr>modify := (\<lambda>dn chg. Inl (LDAPException ''no changes in modify request'')),
                   modify_password := (\<lambda>dn pwd. Inl (LDAPException ''unwillingToPerform'')),
                   search := (\<lambda>base flt attrs. Inl (LDAPException ''invalid filter''))\<rparr>"

definition example_param :: param where
  "example_param =
     \<lparr>members = ''alice;bob'', groups = ''g1'', use_samaccountname = Some True,
      user = alice_dn, obj = alice_dn, new_ou = ''OU=New,DC=x'',
      principals = ''alice'', attributes = ''mail;samaccountname'',
      attribute = ''mail'', val = ''a@x'', action = ''UPSERT'',
      password = ''secret'', filter_p = ''(samaccountname=alice)'', search_base = None\<rparr>"

subsection \<open>Reading the log\<close>

text \<open>
  Binding, unbinding and searching change nothing in the directory. \<open>reads s s'\<close>: the
  log of \<open>s'\<close> is the log of \<open>s\<close> followed by such calls only.
\<close>

fun read_only :: "dir_op \<Rightarrow> bool" where
  "read_only OpUnbind = True"
| "read_only OpBind = True"
| "read_only (OpSearch b f a) = True"
| "read_only (OpModify d c) = False"
| "read_only (OpModifyDN d r n) = False"
| "read_only (OpAddMembers m g) = False"
| "read_only (OpRemoveMembers m g) = False"
| "read_only (OpUnlock d) = False"
| "read_only (OpModifyPassword d p) = False"

definition reads :: "connector \<Rightarrow> connector \<Rightarrow> bool" where
  "reads s s' = (\<exists>xs. list_all read_only xs \<and> ops s' = ops s @ xs)"

section \<open>Properties\<close>

subsection \<open>The log, the action results and the connection\<close>

lemma reads_refl [simp]: "reads s s"
  by (simp add: reads_def)

lemma reads_trans: "reads s s1 \<Longrightarrow> reads s1 s2 \<Longrightarrow> reads s s2"
  by (auto simp: reads_def)

lemma upd_result_fields [simp]:
  "ops (upd_result ar f s) = ops s"
  "ldap_connection (upd_result ar f s) = ldap_connection s"
  "bind_count (upd_result ar f s) = bind_count s"
  "length (action_results (upd_result ar f s)) = length (action_results s)"
  by (simp_all add: upd_result_def)

lemma upd_result_nth:
  "action_results (upd_result ar f s) ! i =
     (if i = ar \<and> ar < length (action_results s) then f (action_results s ! ar)
      else action_results s ! i)"
  by (cases "ar < length (action_results s)")
    (auto simp: upd_result_def nth_list_update list_update_beyond)

lemma live_upd_result [simp]: "live (upd_result ar f s) = live s"
  by (simp add: live_def)

lemma reads_upd_result [simp]: "reads s (upd_result ar f s)"
  by (simp add: reads_def)

lemma log_op_fields [simp]:
  "ops (log_op op s) = ops s @ [op]"
  "ldap_connection (log_op op s) = ldap_connection s"
  "bind_count (log_op op s) = bind_count s"
  "action_results (log_op op s) = action_results s"
  by (simp_all add: log_op_def)

lemma live_log_op [simp]: "live (log_op op s) = live s"
  by (simp add: live_def)

lemma reads_log_op: "read_only op \<Longrightarrow> reads s (log_op op s)"
  by (simp add: reads_def)

lemma ret_val_pair [simp]: "ret_val (b, s) = (Inr (RetVal b), s)"
  by (simp add: ret_val_def)

lemma add_action_result_simps [simp]:
  "fst (add_action_result s) = length (action_results s)"
  "ops (snd (add_action_result s)) = ops s"
  "action_results (snd (add_action_result s)) = action_results s @ [new_action_result]"
  by (simp_all add: add_action_result_def)

lemma reads_add_action_result [simp]: "reads s (snd (add_action_result s))"
  by (simp add: reads_def)

lemma update_summary_fields [simp]:
  "ops (update_summary ar kvs s) = ops s"
  "ldap_connection (update_summary ar kvs s) = ldap_connection s"
  "length (action_results (update_summary ar kvs s)) = length (action_results s)"
  by (simp_all add: update_summary_def)

lemma reads_update_summary [simp]: "reads s (update_summary ar kvs s)"
  by (simp add: reads_def)

lemma ldap_bind_live: "live s \<Longrightarrow> ldap_bind w ar s = (True, s)"
  by (simp add: ldap_bind_def)

lemma ldap_bind_None_results [simp]:
  "action_results (snd (ldap_bind w None s)) = action_results s"
  by (simp add: ldap_bind_def Let_def split: option.splits bind_outcome.splits)

lemma ldap_bind_None_True: "ldap_bind w None s = (True, s') \<Longrightarrow> live s'"
  by (auto simp: ldap_bind_def Let_def live_def fresh_connection_def
      split: option.splits bind_outcome.splits if_splits)

lemma ldap_bind_None_False: "ldap_bind w None s = (False, s') \<Longrightarrow> \<not> live s'"
  by (auto simp: ldap_bind_def Let_def live_def fresh_connection_def
      split: option.splits bind_outcome.splits if_splits)

lemma ldap_bind_reads [simp]: "reads s (snd (ldap_bind w ar s))"
  by (auto simp: ldap_bind_def Let_def reads_def set_status_def
      split: option.splits bind_outcome.splits)

lemma get_root_dn_live: "live s \<Longrightarrow> get_root_dn w s = (default_naming_context w, s)"
  by (simp add: get_root_dn_def ldap_bind_live)

lemma query_results [simp]: "action_results (snd (query w qp s)) = action_results s"
proof -
  obtain b1 s1 where 1: "ldap_bind w None s = (b1, s1)" by force
  obtain b2 s2 where 2: "ldap_bind w None s1 = (b2, s2)" by force
  have "action_results s1 = action_results s" "action_results s2 = action_results s1"
    using ldap_bind_None_results [of w s] ldap_bind_None_results [of w s1] 1 2 by simp_all
  then show ?thesis
    using 1 2 by (auto simp: query_def get_root_dn_def Let_def split: sum.splits bool.splits)
qed

lemma query_reads [simp]: "reads s (snd (query w qp s))"
proof -
  obtain b1 s1 where 1: "ldap_bind w None s = (b1, s1)" by force
  obtain b2 s2 where 2: "ldap_bind w None s1 = (b2, s2)" by force
  have "reads s s1" "reads s1 s2"
    using ldap_bind_reads [of s w None] ldap_bind_reads [of s1 w None] 1 2 by simp_all
  then have "reads s s2" by (rule reads_trans)
  moreover have "reads s2 (snd (query w qp s))"
    using 1 2 by (auto simp: query_def get_root_dn_def Let_def reads_def split: sum.splits bool.splits)
  ultimately show ?thesis by (rule reads_trans)
qed

lemma sam_to_dn_reads [simp]: "reads s (snd (sam_to_dn w sam ar s))"
proof -
  obtain q s1 where 1: "query w (sam_query sam) s = (q, s1)" by force
  have "reads s s1" using query_reads [of s w "sam_query sam"] 1 by simp
  moreover have "reads s1 (snd (sam_to_dn w sam ar s))"
    using 1 by (auto simp: sam_to_dn_def update_summary_def split: sum.splits option.splits)
  ultimately show ?thesis by (rule reads_trans)
qed

lemma sam_to_dn_length [simp]:
  "length (action_results (snd (sam_to_dn w sam ar s))) = length (action_results s)"
proof -
  obtain q s1 where 1: "query w (sam_query sam) s = (q, s1)" by force
  have "action_results s1 = action_results s"
    using query_results [of w "sam_query sam" s] 1 by simp
  then show ?thesis
    using 1 by (auto simp: sam_to_dn_def update_summary_def split: sum.splits option.splits)
qed

lemma sam_to_dn_frame:
  "status (action_results (snd (sam_to_dn w sam ar s)) ! i) = status (action_results s ! i)"
  "data (action_results (snd (sam_to_dn w sam ar s)) ! i) = data (action_results s ! i)"
proof -
  obtain q s1 where 1: "query w (sam_query sam) s = (q, s1)" by force
  have 2: "action_results s1 = action_results s"
    using query_results [of w "sam_query sam" s] 1 by simp
  show "status (action_results (snd (sam_to_dn w sam ar s)) ! i) = status (action_results s ! i)"
    using 1 2
    by (auto simp: sam_to_dn_def update_summary_def upd_result_nth
        split: sum.splits option.splits)
  show "data (action_results (snd (sam_to_dn w sam ar s)) ! i) = data (action_results s ! i)"
    using 1 2
    by (auto simp: sam_to_dn_def update_summary_def upd_result_nth
        split: sum.splits option.splits)
qed

lemma seed_fold_keys:
  "fst ` set (fold (\<lambda>name. AList.update name None) sam acc) = set sam \<union> fst ` set acc"
  by (induction sam arbitrary: acc) (auto simp: dom_update)

lemma seed_fold_distinct:
  "distinct (map fst acc) \<Longrightarrow> distinct (map fst (fold (\<lambda>name. AList.update name None) sam acc))"
  by (induction sam arbitrary: acc) (auto simp: distinct_update)

lemma seed_fold_map_of:
  "map_of (fold (\<lambda>name. AList.update name None) sam acc) k =
     (if k \<in> set sam then Some None else map_of acc k)"
  by (induction sam arbitrary: acc) (auto simp: update_conv')

lemma seed_keys: "fst ` set (seed sam) = set sam"
  by (simp add: seed_def seed_fold_keys)

lemma seed_distinct: "distinct (map fst (seed sam))"
  by (simp add: seed_def seed_fold_distinct)

lemma seed_map_of: "map_of (seed sam) k = (if k \<in> set sam then Some None else None)"
  by (simp add: seed_def seed_fold_map_of)

lemma match_entries_keys:
  "match_entries es r = Inr r' \<Longrightarrow> map fst r' = map fst r"
  by (induction es arbitrary: r) (auto simp: update_keys split: option.splits if_splits)

lemma match_entries_value:
  "match_entries es r = Inr r' \<Longrightarrow> map_of r' k = Some (Some d) \<Longrightarrow>
     map_of r k = Some (Some d)
     \<or> (\<exists>e\<in>set es. sAMAccountName (jattributes e) = Some k
                    \<and> distinguishedName (jattributes e) = Some d)"
proof (induction es arbitrary: r)
  case Nil
  then show ?case by simp
next
  case (Cons i rest)
  then show ?case
    by (fastforce simp: update_conv' split: option.splits if_splits)
qed

lemma match_entries_unmatched:
  "match_entries es r = Inr r' \<Longrightarrow>
     \<forall>e\<in>set es. sAMAccountName (jattributes e) \<noteq> Some k \<Longrightarrow> map_of r' k = map_of r k"
  by (induction es arbitrary: r) (auto simp: update_conv' split: option.splits if_splits)

subsection \<open>Identifier resolver\<close>

text \<open>
  Claim C4. When \<open>_sam_to_dn\<close> returns a mapping for the list \<open>sam\<close>, the search it made
  returned some entries and the mapping has exactly one entry per distinct input
  identifier: its keys are distinct and are the input identifiers. Every value is
  \<open>False\<close> (here \<open>None\<close>) or the distinguished name of a search hit whose
  \<open>sAMAccountName\<close> equals the key, and an input that no hit names stays mapped to \<open>False\<close>.
\<close>

theorem sam_to_dn_mapping:
  assumes "sam_to_dn w sam ar s = (Inr r, s')"
  shows "\<exists>entries s1. query w (sam_query sam) s = (Inr entries, s1)
           \<and> distinct (map fst r) \<and> set (map fst r) = set sam \<and> length r = card (set sam)
           \<and> (\<forall>(k, v) \<in> set r. v = None
                 \<or> (\<exists>e\<in>set entries. sAMAccountName (jattributes e) = Some k
                                       \<and> distinguishedName (jattributes e) = v))
           \<and> (\<forall>k\<in>set sam. (\<forall>e\<in>set entries. sAMAccountName (jattributes e) \<noteq> Some k)
                 \<longrightarrow> (k, None) \<in> set r)"
proof -
  obtain q s1 where q: "query w (sam_query sam) s = (q, s1)" by force
  with assms obtain entries where e: "q = Inr entries"
    by (cases q) (auto simp: sam_to_dn_def)
  from assms q e have m: "match_entries entries (seed sam) = Inr r"
    by (auto simp: sam_to_dn_def split: sum.splits)
  have keys: "map fst r = map fst (seed sam)"
    using m by (rule match_entries_keys)
  have d: "distinct (map fst r)" by (simp add: keys seed_distinct)
  have k: "set (map fst r) = set sam" by (simp add: keys seed_keys)
  have l: "length r = card (set sam)"
    using d k by (metis distinct_card length_map)
  have v: "v = None \<or> (\<exists>e\<in>set entries. sAMAccountName (jattributes e) = Some k'
                                       \<and> distinguishedName (jattributes e) = v)"
    if "(k', v) \<in> set r" for k' v
  proof (cases v)
    case None
    then show ?thesis by simp
  next
    case (Some dn)
    from that d have "map_of r k' = Some (Some dn)" by (simp add: Some)
    from match_entries_value [OF m this] show ?thesis
      by (auto simp: seed_map_of Some split: if_splits)
  qed
  have u: "(k', None) \<in> set r"
    if "k' \<in> set sam" "\<forall>e\<in>set entries. sAMAccountName (jattributes e) \<noteq> Some k'" for k'
  proof -
    have "map_of r k' = Some None"
      using match_entries_unmatched [OF m that(2)] that(1) by (simp add: seed_map_of)
    then show ?thesis by (rule map_of_SomeD)
  qed
  from q e d k l v u show ?thesis by blast
qed

theorem sam_to_dn_mapping_witness:
  "fst (sam_to_dn example_world [''alice'', ''bob''] None initialize)
     = Inr [(''alice'', Some alice_dn), (''bob'', None)]
   \<and> (\<exists>entries s1.
         query example_world (sam_query [''alice'', ''bob'']) initialize = (Inr entries, s1)
         \<and> (\<exists>e\<in>set entries. sAMAccountName (jattributes e) = Some ''alice''
                               \<and> distinguishedName (jattributes e) = Some alice_dn)
         \<and> (\<forall>e\<in>set entries. sAMAccountName (jattributes e) \<noteq> Some ''bob''))"
proof -
  have r: "fst (sam_to_dn example_world [''alice'', ''bob''] None initialize)
             = Inr [(''alice'', Some alice_dn), (''bob'', None)]"
    by code_simp
  then have h: "sam_to_dn example_world [''alice'', ''bob''] None initialize
             = (Inr [(''alice'', Some alice_dn), (''bob'', None)],
                snd (sam_to_dn example_world [''alice'', ''bob''] None initialize))"
    by (simp add: prod_eq_iff)
  have q: "fst (query example_world (sam_query [''alice'', ''bob'']) initialize)
             = Inr [\<lparr>jattributes = hit ''alice'' alice_dn\<rparr>]"
    by code_simp
  from sam_to_dn_mapping [OF h] obtain entries s1 where
    e: "query example_world (sam_query [''alice'', ''bob'']) initialize = (Inr entries, s1)"
    and v: "\<forall>(k, v) \<in> set [(''alice'', Some alice_dn), (''bob'', None)]. v = None
                 \<or> (\<exists>e\<in>set entries. sAMAccountName (jattributes e) = Some k
                                       \<and> distinguishedName (jattributes e) = v)"
    by blast
  from e q have "entries = [\<lparr>jattributes = hit ''alice'' alice_dn\<rparr>]" by simp
  with r e v show ?thesis by (simp add: hit_def)
qed

subsection \<open>Filtered response\<close>

lemma not_search_res_ref_typed:
  "\<forall>i\<in>set r. rtype i \<noteq> None \<Longrightarrow>
     not_search_res_ref r = Inr (filter (\<lambda>i. rtype i \<noteq> Some ''searchResRef'') r)"
  by (induction r) auto

lemma not_search_res_ref_untyped:
  "\<exists>i\<in>set r. rtype i = None \<Longrightarrow> not_search_res_ref r = Inl KeyError"
  by (induction r) (force split: option.splits sum.splits)+

lemma not_search_res_ref_sound:
  "not_search_res_ref r = Inr out \<Longrightarrow> \<forall>i\<in>set out. rtype i \<noteq> Some ''searchResRef''"
  by (induction r arbitrary: out) (auto split: option.splits sum.splits if_splits)

text \<open>
  Claim C7. When the last response can be read and its items carry a type,
  \<open>_get_filtered_response\<close> returns exactly the items whose type is not
  \<open>searchResRef\<close>; whatever the state, no item it returns is a referral; and when
  reading the response raises (no connection, no response, an item without a type) it
  returns the empty list.
\<close>

theorem get_filtered_response_drops_referrals:
  "(\<forall>r. read_response s = Inr r \<and> (\<forall>i\<in>set r. rtype i \<noteq> None) \<longrightarrow>
        get_filtered_response s = filter (\<lambda>i. rtype i \<noteq> Some ''searchResRef'') r)
   \<and> (\<forall>i\<in>set (get_filtered_response s). rtype i \<noteq> Some ''searchResRef'')
   \<and> (\<forall>e. read_response s = Inl e \<longrightarrow> get_filtered_response s = [])
   \<and> (\<forall>r. read_response s = Inr r \<and> (\<exists>i\<in>set r. rtype i = None) \<longrightarrow>
        get_filtered_response s = [])"
proof -
  have a: "get_filtered_response s = filter (\<lambda>i. rtype i \<noteq> Some ''searchResRef'') r"
    if "read_response s = Inr r" "\<forall>i\<in>set r. rtype i \<noteq> None" for r
    using that by (simp add: get_filtered_response_def not_search_res_ref_typed)
  have b: "\<forall>i\<in>set (get_filtered_response s). rtype i \<noteq> Some ''searchResRef''"
    by (auto simp: get_filtered_response_def split: sum.splits
        dest: sym [THEN not_search_res_ref_sound])
  have c: "get_filtered_response s = []" if "read_response s = Inl e" for e
    using that by (simp add: get_filtered_response_def)
  have d: "get_filtered_response s = []"
    if "read_response s = Inr r" "\<exists>i\<in>set r. rtype i = None" for r
    using that by (simp add: get_filtered_response_def not_search_res_ref_untyped)
  from a b c d show ?thesis by blast
qed

theorem get_filtered_response_drops_referrals_witness:
  "read_response (snd (query example_world (uac_query alice_dn) initialize))
     = Inr [referral_item, entry_item (hit ''alice'' alice_dn)]
   \<and> get_filtered_response (snd (query example_world (uac_query alice_dn) initialize))
     = [entry_item (hit ''alice'' alice_dn)]
   \<and> read_response initialize = Inl AttributeError
   \<and> get_filtered_response initialize = []"
proof -
  have r: "read_response (snd (query example_world (uac_query alice_dn) initialize))
             = Inr [referral_item, entry_item (hit ''alice'' alice_dn)]"
    by code_simp
  have t: "\<forall>i\<in>set [referral_item, entry_item (hit ''alice'' alice_dn)]. rtype i \<noteq> None"
    by (simp add: referral_item_def entry_item_def)
  have n: "read_response initialize = Inl AttributeError"
    by (simp add: read_response_def initialize_def)
  from get_filtered_response_drops_referrals
         [of "snd (query example_world (uac_query alice_dn) initialize)"] r t
  have "get_filtered_response (snd (query example_world (uac_query alice_dn) initialize))
          = filter (\<lambda>i. rtype i \<noteq> Some ''searchResRef'')
              [referral_item, entry_item (hit ''alice'' alice_dn)]"
    by blast
  moreover from get_filtered_response_drops_referrals [of initialize] n
  have "get_filtered_response initialize = []" by blast
  ultimately show ?thesis using r n by (simp add: referral_item_def entry_item_def)
qed

subsection \<open>Account-control flags\<close>

lemma bit_two_int: "bit (2 :: int) n \<longleftrightarrow> n = 1"
  using bit_exp_iff [of 1 n, where ?'a = int] by simp

lemma uac_mask: "(0xFFFFFFFF XOR 0x02 :: int) = mask 32 XOR 2"
  by (simp add: mask_eq_exp_minus_1)

lemma bit_uac_mask: "bit (0xFFFFFFFF XOR 0x02 :: int) n \<longleftrightarrow> n < 32 \<and> n \<noteq> 1"
  unfolding uac_mask by (auto simp: bit_xor_iff bit_mask_iff bit_two_int)

lemma bit_uac_mask_numeral: "bit (4294967293 :: int) n \<longleftrightarrow> n < 32 \<and> n \<noteq> 1"
proof -
  have "(4294967293 :: int) = 0xFFFFFFFF XOR 0x02" by simp
  then show ?thesis by (simp only: bit_uac_mask)
qed

lemma bit_below: "0 \<le> (k :: int) \<Longrightarrow> k < 2 ^ m \<Longrightarrow> bit k n \<Longrightarrow> n < m"
  by (metis bit_take_bit_iff take_bit_int_eq_self)

text \<open>
  The value computed by \<open>mod_uac\<close> is the one the handler writes: once the flags have been
  read, the next call is the replacement of \<open>userAccountControl\<close> by it.
\<close>

lemma account_status_modify:
  assumes "ldap_bind w None (snd (add_action_result s)) = (True, s1)"
    and "handle_query w (uac_query (user p)) s1 = (Inr r, s2)"
    and "read_uac (get_filtered_response s2) = Inr uac"
  shows "ops (snd (handle_account_status w p disable s))
           = ops s2 @ [OpModify (user p) (uac_changes (mod_uac disable uac))]"
  using assms
  by (simp add: handle_account_status_def Let_def split_def set_status_def ret_val_def
      split: sum.splits)

lemma account_status_example:
  "ops (snd (handle_action example_world ''disable_account'' example_param initialize))
     = [OpBind,
        OpSearch (Some ''DC=x'') ''(distinguishedname=CN=Alice,OU=Old,DC=x)''
          [''useraccountcontrol''],
        OpModify alice_dn [(''userAccountControl'', [(MODIFY_REPLACE, [VInt 514])])]]"
  by code_simp

text \<open>
  Claim C3, amended. Disabling computes \<open>uac OR 0x02\<close> and enabling computes
  \<open>uac AND (0xFFFFFFFF XOR 0x02)\<close>. Disabling leaves every bit other than \<open>0x02\<close> as it
  was, for every integer. For a value in the 32-bit range, \<open>0 \<le> uac < 2 ^ 32\<close>, enabling
  does so too, and disabling then enabling gives back the value with every bit other than
  \<open>0x02\<close> unchanged and bit \<open>0x02\<close> cleared.
\<close>

theorem mod_uac_bits:
  "mod_uac True uac = uac OR 0x02
   \<and> mod_uac False uac = uac AND (0xFFFFFFFF XOR 0x02)
   \<and> (\<forall>n. n \<noteq> 1 \<longrightarrow> bit (mod_uac True uac) n = bit uac n)
   \<and> (0 \<le> uac \<and> uac < 2 ^ 32 \<longrightarrow>
        (\<forall>n. n \<noteq> 1 \<longrightarrow> bit (mod_uac False uac) n = bit uac n)
        \<and> (\<forall>n. n \<noteq> 1 \<longrightarrow> bit (mod_uac False (mod_uac True uac)) n = bit uac n)
        \<and> \<not> bit (mod_uac False (mod_uac True uac)) 1)"
proof -
  have d: "bit (mod_uac True uac) n = bit uac n" if "n \<noteq> 1" for n
    using that by (simp add: mod_uac_def bit_or_iff bit_two_int)
  have e: "bit (mod_uac False k) n = bit k n"
    if "n \<noteq> 1" "n < 32 \<or> \<not> bit k n" for n k
    using that by (auto simp: mod_uac_def bit_and_iff bit_uac_mask_numeral)
  have r: "bit (mod_uac False uac) n = bit uac n
           \<and> bit (mod_uac False (mod_uac True uac)) n = bit uac n"
    if "0 \<le> uac" "uac < 2 ^ 32" "n \<noteq> 1" for n
  proof -
    have "n < 32 \<or> \<not> bit uac n" using bit_below [OF that(1,2)] by blast
    then show ?thesis using e [of n uac] e [of n "mod_uac True uac"] d [of n] that(3) by auto
  qed
  have c: "\<not> bit (mod_uac False k) 1" for k
    by (simp add: mod_uac_def bit_and_iff bit_uac_mask_numeral)
  from d r c show ?thesis by (simp add: mod_uac_def)
qed

theorem mod_uac_bits_witness:
  "(0 :: int) \<le> 512 \<and> (512 :: int) < 2 ^ 32
   \<and> mod_uac True 512 = 514 \<and> mod_uac False 514 = 512
   \<and> bit (mod_uac False (mod_uac True 512)) 9 = bit (512 :: int) 9"
  using mod_uac_bits [of 512] by (simp add: mod_uac_def)

text \<open>
  Python integers have no width, and the mask \<open>0xFFFFFFFF\<close> clears every bit from bit 32
  upwards: on the value \<open>2 ^ 32\<close> enabling changes bit 32, and disabling then enabling
  gives 0.
\<close>

theorem mod_uac_wide_counterexample:
  "bit (4294967296 :: int) 32 \<and> \<not> bit (mod_uac False 4294967296) 32
   \<and> mod_uac False (mod_uac True 4294967296) = 0"
  by (simp add: mod_uac_def bit_iff_odd)

subsection \<open>Group membership\<close>

lemma fold_add_data_ops [simp]:
  "ops (fold (\<lambda>j. add_data ar (d j)) gs s) = ops s"
  by (induction gs arbitrary: s) (simp_all add: add_data_def)

lemma fold_add_data_length [simp]:
  "length (action_results (fold (\<lambda>j. add_data ar (d j)) gs s)) = length (action_results s)"
  by (induction gs arbitrary: s) (simp_all add: add_data_def)

lemma fold_add_data_data:
  "ar < length (action_results s) \<Longrightarrow>
     data (action_results (fold (\<lambda>j. add_data ar (d j)) gs s) ! ar)
       = data (action_results s ! ar) @ map d gs"
  by (induction gs arbitrary: s) (simp_all add: add_data_def upd_result_nth)

lemma add_group_data_ops [simp]: "ops (add_group_data ar func ms gs s) = ops s"
  unfolding add_group_data_def by (induction ms arbitrary: s) simp_all

lemma add_group_data_length [simp]:
  "length (action_results (add_group_data ar func ms gs s)) = length (action_results s)"
  unfolding add_group_data_def by (induction ms arbitrary: s) simp_all

lemma add_group_data_data:
  "ar < length (action_results s) \<Longrightarrow>
     data (action_results (add_group_data ar func ms gs s) ! ar)
       = data (action_results s ! ar)
         @ concat (map (\<lambda>i. map (\<lambda>j. GroupData i j func) gs) ms)"
  unfolding add_group_data_def
  by (induction ms arbitrary: s) (simp_all add: fold_add_data_data)

lemma modify_groups_ops [simp]:
  "ops (snd (modify_groups w ar add ms gs s)) = ops s @ [group_op add ms gs]"
  by (simp add: modify_groups_def Let_def set_status_def split: sum.splits)

lemma modify_groups_success:
  assumes "modify_groups w ar add ms gs s = (Inr (RetVal True), s')"
    and "ar < length (action_results s)"
  shows "data (action_results s' ! ar)
           = data (action_results s ! ar)
             @ concat (map (\<lambda>i. map (\<lambda>j. GroupData i j (func_name add)) gs) ms)
         \<and> status (action_results s' ! ar) = Some True"
  using assms
  by (auto simp: modify_groups_def Let_def set_status_def upd_result_nth add_group_data_data
      split: sum.splits)



text \<open>
  Claim C5. When \<open>add_group_members\<close> or \<open>remove_group_members\<close> returns success, the calls
  it made are binds and searches followed by one group-membership operation, the add or
  the remove, on the final lists \<open>ms\<close> and \<open>gs\<close> (the lists given, when resolution is not
  requested), and the data of its action result is one record per pair of \<open>ms \<times> gs\<close>, each with
  the member, the group and the function applied, \<open>added\<close> for the add action and
  \<open>removed\<close> for the remove action: \<open>length ms * length gs\<close> records, for the add and
  for the remove action alike.
\<close>

theorem group_members_data_records:
  assumes "handle_group_members w p add s = (Inr (RetVal APP_SUCCESS), s')"
  shows "\<exists>ms gs xs.
           list_all read_only xs
           \<and> ops s' = ops s @ xs @ [if add then OpAddMembers ms gs else OpRemoveMembers ms gs]
           \<and> (use_samaccountname p \<noteq> Some True \<longrightarrow>
                 ms = split_strip (members p) \<and> gs = split_strip (groups p))
           \<and> data (action_results s' ! length (action_results s))
               = concat (map (\<lambda>m. map (\<lambda>g.
                   GroupData m g (if add then ''added'' else ''removed'')) gs) ms)
           \<and> length (data (action_results s' ! length (action_results s)))
               = length ms * length gs
           \<and> status (action_results s' ! length (action_results s)) = Some APP_SUCCESS"
proof -
  let ?ar = "length (action_results s)"
  let ?s0 = "snd (add_action_result s)"
  let ?f = "if add then ''added'' else ''removed''"
  obtain okb s1 where b: "ldap_bind w None ?s0 = (okb, s1)" by force
  have "reads ?s0 s1"
    using ldap_bind_reads [of ?s0 w None] b by simp
  then have r1: "reads s s1"
    by (rule reads_trans [OF reads_add_action_result])
  have ar1: "action_results s1 = action_results s @ [new_action_result]"
    using ldap_bind_None_results [of w ?s0] b by simp
  from assms b have okb: okb
    by (auto simp: handle_group_members_def Let_def split_def set_status_def split: if_splits)
  have fin: ?thesis
    if m: "modify_groups w ?ar add ms gs s3 = (Inr (RetVal True), s')"
      and rd: "reads s s3"
      and len: "?ar < length (action_results s3)"
      and d0: "data (action_results s3 ! ?ar) = []"
      and raw: "use_samaccountname p \<noteq> Some True \<longrightarrow>
                  ms = split_strip (members p) \<and> gs = split_strip (groups p)"
    for ms gs s3
  proof -
    from rd obtain xs where xs: "list_all read_only xs" "ops s3 = ops s @ xs"
      by (auto simp: reads_def)
    have o: "ops s' = ops s @ xs @ [if add then OpAddMembers ms gs else OpRemoveMembers ms gs]"
      using modify_groups_ops [of w ?ar add ms gs s3] m xs by (simp add: group_op_def)
    have d: "data (action_results s' ! ?ar)
               = concat (map (\<lambda>m. map (\<lambda>g. GroupData m g ?f) gs) ms)"
      and st: "status (action_results s' ! ?ar) = Some True"
      using modify_groups_success [OF m len] d0 by (simp_all add: func_name_def)
    have l: "length (concat (map (\<lambda>m. map (\<lambda>g. GroupData m g ?f) gs) ms))
               = length ms * length gs"
      by (induction ms) simp_all
    from xs(1) o d st l raw show ?thesis
      by (intro exI [of _ ms] exI [of _ gs] exI [of _ xs]) simp
  qed
  show ?thesis
  proof (cases "use_samaccountname p = Some True")
    case False
    with assms b okb
    have "modify_groups w ?ar add (split_strip (members p)) (split_strip (groups p)) s1
            = (Inr (RetVal True), s')"
      by (simp add: handle_group_members_def Let_def split_def)
    moreover have "data (action_results s1 ! ?ar) = []"
      by (simp add: ar1 new_action_result_def)
    ultimately show ?thesis
      using fin [of "split_strip (members p)" "split_strip (groups p)" s1] r1 ar1 by simp
  next
    case True
    obtain q1 s2 where q1: "sam_to_dn w (split_strip (members p)) (Some ?ar) s1 = (q1, s2)"
      by force
    from assms b okb True q1 obtain t_users where tu: "q1 = Inr t_users"
      by (cases q1) (auto simp: handle_group_members_def Let_def split_def)
    obtain q2 s3 where q2: "sam_to_dn w (split_strip (groups p)) (Some ?ar) s2 = (q2, s3)"
      by force
    from assms b okb True q1 tu q2 obtain t_group where tg: "q2 = Inr t_group"
      by (cases q2) (auto simp: handle_group_members_def Let_def split_def)
    from assms b okb True q1 tu q2 tg
    have m: "modify_groups w ?ar add (resolved t_users) (resolved t_group) s3
               = (Inr (RetVal True), s')"
      by (auto simp: handle_group_members_def Let_def split_def set_status_def split: if_splits)
    have "reads s1 s2"
      using sam_to_dn_reads [of s1 w "split_strip (members p)" "Some ?ar"] q1 by simp
    moreover have "reads s2 s3"
      using sam_to_dn_reads [of s2 w "split_strip (groups p)" "Some ?ar"] q2 by simp
    ultimately have rd: "reads s s3" using r1 by (blast intro: reads_trans)
    have l2: "length (action_results s2) = Suc ?ar"
      using sam_to_dn_length [of w "split_strip (members p)" "Some ?ar" s1] q1 ar1 by simp
    then have len: "?ar < length (action_results s3)"
      using sam_to_dn_length [of w "split_strip (groups p)" "Some ?ar" s2] q2 by simp
    have "data (action_results s2 ! ?ar) = data (action_results s1 ! ?ar)"
      using sam_to_dn_frame(2) [of w "split_strip (members p)" "Some ?ar" s1 ?ar] q1 by simp
    moreover have "data (action_results s3 ! ?ar) = data (action_results s2 ! ?ar)"
      using sam_to_dn_frame(2) [of w "split_strip (groups p)" "Some ?ar" s2 ?ar] q2 by simp
    ultimately have d0: "data (action_results s3 ! ?ar) = []"
      by (simp add: ar1 new_action_result_def)
    show ?thesis
      using fin [OF m rd len d0] True by simp
  qed
qed

theorem group_members_data_records_witness:
  "data (action_results
      (snd (handle_group_members example_world
              (example_param\<lparr>use_samaccountname := None\<rparr>) False initialize)) ! 0)
     = [GroupData ''alice'' ''g1'' ''removed'', GroupData ''bob'' ''g1'' ''removed'']
   \<and> data (action_results
      (snd (handle_group_members example_world example_param True initialize)) ! 0)
     = [GroupData alice_dn ''CN=G1,DC=x'' ''added'']"
proof -
  let ?w = example_world
  let ?p = "example_param\<lparr>use_samaccountname := None\<rparr>"
  let ?r = "snd (handle_group_members ?w ?p False initialize)"
  let ?a = "snd (handle_group_members ?w example_param True initialize)"
  have h: "handle_group_members ?w ?p False initialize = (Inr (RetVal APP_SUCCESS), ?r)"
  proof -
    have "fst (handle_group_members ?w ?p False initialize) = Inr (RetVal True)" by code_simp
    then show ?thesis by (simp add: prod_eq_iff)
  qed
  have u: "use_samaccountname ?p \<noteq> Some True" by (simp add: example_param_def)
  have l: "split_strip (members ?p) = [''alice'', ''bob'']" "split_strip (groups ?p) = [''g1'']"
    by code_simp+
  from group_members_data_records [OF h] u l
  have 1: "data (action_results ?r ! 0)
             = [GroupData ''alice'' ''g1'' ''removed'', GroupData ''bob'' ''g1'' ''removed'']"
    by (auto simp: initialize_def)
  have h': "handle_group_members ?w example_param True initialize
              = (Inr (RetVal APP_SUCCESS), ?a)"
  proof -
    have "fst (handle_group_members ?w example_param True initialize) = Inr (RetVal True)"
      by code_simp
    then show ?thesis by (simp add: prod_eq_iff)
  qed
  have o: "ops ?a
             = [OpBind,
                OpSearch (Some ''DC=x'') ''(|(samaccountname=alice)(samaccountname=bob))''
                  [''distinguishedname'', ''samaccountname''],
                OpSearch (Some ''DC=x'') ''(|(samaccountname=g1))''
                  [''distinguishedname'', ''samaccountname''],
                OpAddMembers [alice_dn] [''CN=G1,DC=x'']]"
    by code_simp
  from group_members_data_records [OF h'] obtain ms gs xs where
    x: "ops ?a = ops initialize @ xs
                   @ [if True then OpAddMembers ms gs else OpRemoveMembers ms gs]"
    and y: "data (action_results ?a ! length (action_results initialize))
              = concat (map (\<lambda>m. map (\<lambda>g.
                  GroupData m g (if True then ''added'' else ''removed'')) gs) ms)"
    by blast
  from x o have "ops initialize @ xs
                     @ [if True then OpAddMembers ms gs else OpRemoveMembers ms gs]
                   = [OpBind,
                      OpSearch (Some ''DC=x'') ''(|(samaccountname=alice)(samaccountname=bob))''
                        [''distinguishedname'', ''samaccountname''],
                      OpSearch (Some ''DC=x'') ''(|(samaccountname=g1))''
                        [''distinguishedname'', ''samaccountname''],
                      OpAddMembers [alice_dn] [''CN=G1,DC=x'']]"
    by (simp only:)
  then have "last (ops initialize @ xs
                     @ [if True then OpAddMembers ms gs else OpRemoveMembers ms gs])
               = OpAddMembers [alice_dn] [''CN=G1,DC=x'']"
    by simp
  then have "OpAddMembers ms gs = OpAddMembers [alice_dn] [''CN=G1,DC=x'']"
    by simp
  then have "ms = [alice_dn]" "gs = [''CN=G1,DC=x'']" by simp_all
  with y have 2: "data (action_results ?a ! 0) = [GroupData alice_dn ''CN=G1,DC=x'' ''added'']"
    by (simp add: initialize_def)
  from 1 2 show ?thesis by (intro conjI)
qed

subsection \<open>Moving an object\<close>

text \<open>
  Claim C8. In \<open>move_object\<close>, when the connection is up and the distinguished name of
  the object parses with first component (\<open>a\<close>, \<open>v\<close>), for instance (\<open>CN\<close>, \<open>Alice\<close>), the
  calls the handler makes are binds followed by exactly one modify-DN operation, on the
  object, with the new relative name \<open>a=v\<close> and with \<open>new_ou\<close> as the new superior.
\<close>

theorem move_object_rename:
  assumes "ldap_bind w None (snd (add_action_result s)) = (True, s1)"
    and "parse_dn w (obj p) = Inr ((a, v, sep) # rest)"
  shows "\<exists>xs. list_all read_only xs
           \<and> ops (snd (handle_move_object w p s))
               = ops s @ xs @ [OpModifyDN (obj p) (a @ ''='' @ v) (new_ou p)]"
proof -
  have "reads (snd (add_action_result s)) s1"
    using ldap_bind_reads [of "snd (add_action_result s)" w None] assms(1) by simp
  then have "reads s s1" by (rule reads_trans [OF reads_add_action_result])
  then obtain xs where xs: "list_all read_only xs" "ops s1 = ops s @ xs"
    by (auto simp: reads_def)
  have "ops (snd (handle_move_object w p s))
          = ops s1 @ [OpModifyDN (obj p) (a @ ''='' @ v) (new_ou p)]"
    using assms
    by (simp add: handle_move_object_def first_rdn_def Let_def split_def set_status_def
        split: sum.splits)
  with xs show ?thesis by simp
qed

theorem move_object_rename_witness:
  "parse_dn example_world (obj example_param)
     = Inr [(''CN'', ''Alice'', '',''), (''OU'', ''Old'', '',''), (''DC'', ''x'', [])]
   \<and> (\<exists>xs. list_all read_only xs
         \<and> ops (snd (handle_move_object example_world example_param initialize))
             = ops initialize @ xs @ [OpModifyDN alice_dn ''CN=Alice'' ''OU=New,DC=x''])"
proof -
  let ?s1 = "snd (ldap_bind example_world None (snd (add_action_result initialize)))"
  have b: "ldap_bind example_world None (snd (add_action_result initialize)) = (True, ?s1)"
  proof -
    have "fst (ldap_bind example_world None (snd (add_action_result initialize))) = True"
      by code_simp
    then show ?thesis by (simp add: prod_eq_iff)
  qed
  have d: "parse_dn example_world (obj example_param)
             = Inr ((''CN'', ''Alice'', '','') # [(''OU'', ''Old'', '',''), (''DC'', ''x'', [])])"
    by (simp add: example_world_def example_param_def example_parse_dn_def)
  from move_object_rename [OF b d] d show ?thesis
    by (simp add: example_param_def)
qed

subsection \<open>Unlocking an account\<close>

text \<open>
  Claim C9. In \<open>unlock_account\<close> without \<open>use_samaccountname\<close>, the handler always returns
  the error status and sets it on its action result; the calls it makes are binds only,
  so the unlock operation is never invoked; and when the connection is up, the error
  recorded is the NameError raised by reading the variable \<open>user_dn\<close>, which only the
  resolution branch assigns.
\<close>

theorem unlock_without_resolution:
  assumes "use_samaccountname p \<noteq> Some True"
  shows "\<exists>s' xs. handle_unlock_account w p s = (Inr (RetVal APP_ERROR), s')
           \<and> status (action_results s' ! length (action_results s)) = Some APP_ERROR
           \<and> (live s' \<longrightarrow>
                exception_ar (action_results s' ! length (action_results s)) = Some NameError)
           \<and> ops s' = ops s @ xs \<and> list_all read_only xs
           \<and> (\<forall>d. OpUnlock d \<notin> set xs)"
proof -
  let ?ar = "length (action_results s)"
  let ?s1 = "update_summary ?ar [] (snd (add_action_result s))"
  obtain okb s2 where b: "ldap_bind w None ?s1 = (okb, s2)" by force
  have "reads ?s1 s2" using ldap_bind_reads [of ?s1 w None] b by simp
  then have "reads s s2"
    by (blast intro: reads_trans reads_add_action_result reads_update_summary)
  then obtain xs where xs: "list_all read_only xs" "ops s2 = ops s @ xs"
    by (auto simp: reads_def)
  have nu: "OpUnlock d \<notin> set xs" for d
    using xs(1) by (auto simp: list_all_iff)
  have len: "?ar < length (action_results s2)"
    using ldap_bind_None_results [of w ?s1] b by simp
  have lv: "live s2 = okb"
    using b ldap_bind_None_True [of w ?s1 s2] ldap_bind_None_False [of w ?s1 s2]
    by (cases okb) auto
  let ?s' = "snd (handle_unlock_account w p s)"
  have "handle_unlock_account w p s = (Inr (RetVal APP_ERROR), ?s')
        \<and> status (action_results ?s' ! ?ar) = Some APP_ERROR
        \<and> (live ?s' \<longrightarrow> exception_ar (action_results ?s' ! ?ar) = Some NameError)
        \<and> ops ?s' = ops s2"
    using assms b len lv
    by (auto simp: handle_unlock_account_def unlock_tail_def Let_def split_def set_status_def
        upd_result_nth)
  with xs nu show ?thesis by auto
qed

theorem unlock_without_resolution_witness:
  "use_samaccountname (example_param\<lparr>use_samaccountname := None\<rparr>) \<noteq> Some True
   \<and> fst (handle_unlock_account example_world (example_param\<lparr>use_samaccountname := None\<rparr>)
            initialize) = Inr (RetVal APP_ERROR)
   \<and> exception_ar (action_results
        (snd (handle_unlock_account example_world
                (example_param\<lparr>use_samaccountname := None\<rparr>) initialize)) ! 0)
       = Some NameError"
proof -
  let ?p = "example_param\<lparr>use_samaccountname := None\<rparr>"
  have u: "use_samaccountname ?p \<noteq> Some True"
    by simp
  have l: "live (snd (handle_unlock_account example_world ?p initialize))"
    by code_simp
  from unlock_without_resolution [OF u, of example_world initialize] u l
  show ?thesis by (auto simp: initialize_def)
qed

subsection \<open>Setting an attribute\<close>

text \<open>
  Claim C10, amended. In \<open>set_attribute\<close> with an action other than \<open>ADD\<close>, \<open>DELETE\<close> and
  \<open>REPLACE\<close>, nothing validates the action: when the connection is up, the handler still
  calls \<open>modify\<close> on the target with an empty change set, and that is the only call it
  makes after the binds. The library refuses an empty change set by an exception, so no
  \<open>modified\<close> value is recorded, the status set on the action result is the error status,
  and the handler does not return success.
\<close>

theorem set_attribute_empty_change_set:
  assumes "action p \<notin> {''ADD'', ''DELETE'', ''REPLACE''}"
    and "ldap_bind w None (snd (add_action_result s)) = (True, s1)"
  shows "\<exists>r s' xs. handle_set_attribute w p s = (r, s')
           \<and> r \<noteq> Inr (RetVal APP_SUCCESS)
           \<and> list_all read_only xs \<and> ops s' = ops s @ xs @ [OpModify (user p) []]
           \<and> data (action_results s' ! length (action_results s)) = []
           \<and> status (action_results s' ! length (action_results s)) = Some APP_ERROR"
proof -
  let ?ar = "length (action_results s)"
  have "reads (snd (add_action_result s)) s1"
    using ldap_bind_reads [of "snd (add_action_result s)" w None] assms(2) by simp
  then have "reads s s1" by (rule reads_trans [OF reads_add_action_result])
  then obtain xs where xs: "list_all read_only xs" "ops s1 = ops s @ xs"
    by (auto simp: reads_def)
  have ar1: "action_results s1 = action_results s @ [new_action_result]"
    using ldap_bind_None_results [of w "snd (add_action_result s)"] assms(2) by simp
  have c: "set_attribute_changes (action p) (attribute p) (val p) = []"
    using assms(1) by (simp add: set_attribute_changes_def)
  let ?s' = "snd (handle_set_attribute w p s)"
  have "fst (handle_set_attribute w p s) \<noteq> Inr (RetVal APP_SUCCESS)
        \<and> ops ?s' = ops s1 @ [OpModify (user p) []]
        \<and> data (action_results ?s' ! ?ar) = []
        \<and> status (action_results ?s' ! ?ar) = Some APP_ERROR"
    using assms(2) c ar1
    by (simp add: handle_set_attribute_def connection_modify_def Let_def split_def
        set_status_def upd_result_nth new_action_result_def)
  with xs show ?thesis
    by (intro exI [of _ "fst (handle_set_attribute w p s)"] exI [of _ ?s'] exI [of _ xs]) simp
qed

theorem set_attribute_empty_change_set_witness:
  "action example_param \<notin> {''ADD'', ''DELETE'', ''REPLACE''}
   \<and> (\<exists>xs. list_all read_only xs
         \<and> ops (snd (handle_set_attribute example_world example_param initialize))
             = ops initialize @ xs @ [OpModify alice_dn []])
   \<and> status (action_results
        (snd (handle_set_attribute example_world example_param initialize)) ! 0)
       = Some APP_ERROR"
proof -
  let ?s1 = "snd (ldap_bind example_world None (snd (add_action_result initialize)))"
  have b: "ldap_bind example_world None (snd (add_action_result initialize)) = (True, ?s1)"
  proof -
    have "fst (ldap_bind example_world None (snd (add_action_result initialize))) = True"
      by code_simp
    then show ?thesis by (simp add: prod_eq_iff)
  qed
  have a: "action example_param \<notin> {''ADD'', ''DELETE'', ''REPLACE''}"
    by (simp add: example_param_def)
  have u: "user example_param = alice_dn" by (simp add: example_param_def)
  from set_attribute_empty_change_set [OF a b] a u show ?thesis
    by (auto simp: initialize_def)
qed

text \<open>
  The directory of the example accepts every change that reaches it, and the action
  \<open>UPSERT\<close> still ends with the error status, no \<open>modified\<close> value and an exception in
  place of the success the handler would return.
\<close>

theorem set_attribute_unvalidated_counterexample:
  "set_attribute_changes (action example_param) (attribute example_param) (val example_param) = []
   \<and> fst (handle_action example_world ''set_attribute'' example_param initialize)
       = Inl NameError
   \<and> data (action_results
        (snd (handle_action example_world ''set_attribute'' example_param initialize)) ! 0) = []
   \<and> status (action_results
        (snd (handle_action example_world ''set_attribute'' example_param initialize)) ! 0)
       = Some APP_ERROR"
  by code_simp

subsection \<open>Faults that leave the handler\<close>

text \<open>
  Claim C1 (the code departs from it). No exception should leave \<open>handle_action\<close>. In
  \<open>set_attribute\<close>, when the connection is up and \<open>modify\<close> raises, the \<open>except\<close> block sets
  the error status and falls through to the line that reads \<open>ret\<close>: a NameError leaves
  \<open>handle_action\<close>.
\<close>

theorem set_attribute_fault_escapes:
  assumes "ldap_bind w None (snd (add_action_result s)) = (True, s1)"
    and "modify w (user p) (set_attribute_changes (action p) (attribute p) (val p)) = Inl e"
  shows "\<exists>s'. handle_action w ''set_attribute'' p s = (Inl NameError, s')
           \<and> status (action_results s' ! length (action_results s)) = Some APP_ERROR"
proof -
  have ar1: "action_results s1 = action_results s @ [new_action_result]"
    using ldap_bind_None_results [of w "snd (add_action_result s)"] assms(1) by simp
  have "\<exists>e'. connection_modify w (user p)
      (set_attribute_changes (action p) (attribute p) (val p)) = Inl e'"
    using assms(2) by (simp add: connection_modify_def)
  then obtain e' where m: "connection_modify w (user p)
      (set_attribute_changes (action p) (attribute p) (val p)) = Inl e'"
    by blast
  let ?s' = "snd (handle_set_attribute w p s)"
  have "handle_set_attribute w p s = (Inl NameError, ?s')
        \<and> status (action_results ?s' ! length (action_results s)) = Some APP_ERROR"
    using assms(1) m ar1
    by (simp add: handle_set_attribute_def Let_def split_def set_status_def upd_result_nth)
  then show ?thesis by (auto simp: handle_action_def)
qed

theorem set_attribute_fault_escapes_witness:
  "modify rejecting_world (user example_param)
     (set_attribute_changes (action example_param) (attribute example_param) (val example_param))
     = Inl (LDAPException ''no changes in modify request'')
   \<and> fst (handle_action rejecting_world ''set_attribute'' example_param initialize)
       = Inl NameError"
proof -
  let ?s1 = "snd (ldap_bind rejecting_world None (snd (add_action_result initialize)))"
  have b: "ldap_bind rejecting_world None (snd (add_action_result initialize)) = (True, ?s1)"
  proof -
    have "fst (ldap_bind rejecting_world None (snd (add_action_result initialize))) = True"
      by code_simp
    then show ?thesis by (simp add: prod_eq_iff)
  qed
  have m: "modify rejecting_world (user example_param)
             (set_attribute_changes (action example_param) (attribute example_param)
                (val example_param))
             = Inl (LDAPException ''no changes in modify request'')"
    by (simp add: rejecting_world_def)
  from set_attribute_fault_escapes [OF b m] m show ?thesis by auto
qed

text \<open>
  Three more handlers let an exception out: \<open>get_attributes\<close> and \<open>query\<close> when the search
  raises, and \<open>reset_password\<close> when the directory cannot be reached or rejects the new
  password.
\<close>

lemma query_fault_escapes:
  "fst (handle_action rejecting_world ''query'' example_param initialize) = Inl AttributeError"
  by code_simp

lemma get_attributes_fault_escapes:
  "fst (handle_action rejecting_world ''get_attributes'' example_param initialize)
     = Inl (LDAPException ''invalid filter'')"
  by code_simp

lemma reset_password_unbound_raises:
  "fst (handle_action unreachable_world ''reset_password'' example_param initialize)
     = Inl AttributeError"
  by code_simp

lemma reset_password_fault_escapes:
  "fst (handle_action rejecting_world ''reset_password'' example_param initialize)
     = Inl TypeError"
  by code_simp

subsection \<open>The result of an invocation\<close>

text \<open>
  Claim C6 (the code departs from it). Every handler should set a terminal status on its
  action result and return it. In \<open>move_object\<close>, when the connection is up, the name
  parses and the modify-DN call reports success, the handler returns nothing and the
  status of its action result is never set.
\<close>

theorem move_object_success_not_finalized:
  assumes "ldap_bind w None (snd (add_action_result s)) = (True, s1)"
    and "first_rdn w (obj p) = Inr cn"
    and "modify_dn w (obj p) cn (new_ou p) = Inr True"
  shows "\<exists>s'. handle_action w ''move_object'' p s = (Inr RetNone, s')
           \<and> status (action_results s' ! length (action_results s)) = None"
proof -
  have ar1: "action_results s1 = action_results s @ [new_action_result]"
    using ldap_bind_None_results [of w "snd (add_action_result s)"] assms(1) by simp
  let ?s' = "snd (handle_move_object w p s)"
  have "handle_move_object w p s = (Inr RetNone, ?s')
        \<and> status (action_results ?s' ! length (action_results s)) = None"
    using assms ar1
    by (simp add: handle_move_object_def Let_def split_def new_action_result_def)
  then show ?thesis by (auto simp: handle_action_def)
qed

theorem move_object_success_not_finalized_witness:
  "first_rdn example_world (obj example_param) = Inr ''CN=Alice''
   \<and> modify_dn example_world (obj example_param) ''CN=Alice'' (new_ou example_param) = Inr True
   \<and> fst (handle_action example_world ''move_object'' example_param initialize) = Inr RetNone"
proof -
  let ?s1 = "snd (ldap_bind example_world None (snd (add_action_result initialize)))"
  have b: "ldap_bind example_world None (snd (add_action_result initialize)) = (True, ?s1)"
  proof -
    have "fst (ldap_bind example_world None (snd (add_action_result initialize))) = True"
      by code_simp
    then show ?thesis by (simp add: prod_eq_iff)
  qed
  have f: "first_rdn example_world (obj example_param) = Inr ''CN=Alice''"
    by code_simp
  have m: "modify_dn example_world (obj example_param) ''CN=Alice'' (new_ou example_param)
             = Inr True"
    by (simp add: example_world_def)
  from move_object_success_not_finalized [OF b f m] f m show ?thesis by auto
qed

end
